theory Spec2Isabelle
  imports Main
begin

section \<open>Python values and exceptions\<close>

text \<open>
  The exceptions that the two modules can raise or let through. A function that may raise
  returns \<open>exn + 'a\<close>, with \<open>Inl\<close> for the exception.
\<close>

datatype exn =
    ProgrammingError  \<comment> \<open>sqlite3: number of bindings differs from the number of placeholders\<close>
  | ValueError        \<comment> \<open>\<open>create_dns_record\<close>: "Invalid IP address format"; \<open>inet_pton\<close>: text refused\<close>
  | AttributeError    \<comment> \<open>attribute access on \<open>None\<close>\<close>
  | IndexError        \<comment> \<open>list index out of range\<close>
  | TypeError         \<comment> \<open>\<open>None\<close> passed where a string is required\<close>
  | OSError           \<comment> \<open>a failure of the subprocess or of the socket\<close>

text \<open>
  Python's truth value of the \<open>subdomain\<close> argument: \<open>None\<close> and the empty string are
  false, every other string is true.
\<close>

definition truthy :: "string option \<Rightarrow> bool" where
  "truthy subdomain = (case subdomain of None \<Rightarrow> False | Some s \<Rightarrow> s \<noteq> [])"

section \<open>The resolution cache (sqlite\_database.py)\<close>

text \<open>
  The table \<open>domain_resolutions\<close>: a list of rows. The column \<open>subdomain\<close> is nullable, and
  SQLite treats NULLs as distinct in a PRIMARY KEY, so the key constraint alone does not
  exclude two rows with the same domain and a NULL subdomain.
\<close>

record row =
  r_domain :: string
  r_subdomain :: "string option"
  r_ip :: string
  r_timestamp :: int

type_synonym table = "row list"

text \<open>
  The WHERE clauses of the module: with a true \<open>subdomain\<close> the statement is
  \<open>domain = ? AND subdomain = ?\<close>, otherwise \<open>domain = ? AND subdomain IS NULL\<close>.
\<close>

definition where_key :: "string \<Rightarrow> string option \<Rightarrow> row \<Rightarrow> bool" where
  "where_key domain subdomain r =
     (r_domain r = domain \<and>
      (if truthy subdomain then r_subdomain r = subdomain else r_subdomain r = None))"

text \<open>\<open>cursor.fetchone()\<close>: the first row of the result, or \<open>None\<close>.\<close>

definition fetchone :: "row list \<Rightarrow> row option" where
  "fetchone rows = (case rows of [] \<Rightarrow> None | r # _ \<Rightarrow> Some r)"

text \<open>
  \<open>create_db\<close>: the argument is the database file before the call (\<open>None\<close> when the file
  does not exist). An existing file is removed; \<open>sqlite3.connect\<close> then creates a new
  database and \<open>CREATE TABLE IF NOT EXISTS\<close> creates the table without rows (it would keep
  the rows of a table that is already there).
\<close>

definition create_db :: "table option \<Rightarrow> table" where
  "create_db file =
     (let file' = (if file \<noteq> None then None else file)
      in case file' of None \<Rightarrow> [] | Some t \<Rightarrow> t)"

definition get_ip_from_db :: "string \<Rightarrow> string option \<Rightarrow> table \<Rightarrow> string option" where
  "get_ip_from_db domain subdomain db =
     (case fetchone (filter (where_key domain subdomain) db) of
        Some result \<Rightarrow> Some (r_ip result)
      | None \<Rightarrow> None)"

text \<open>
  \<open>INSERT OR REPLACE\<close>: rows that conflict with the new row on the primary key are
  removed, then the row is added. A NULL subdomain never conflicts.
\<close>

definition pk_conflict :: "row \<Rightarrow> row \<Rightarrow> bool" where
  "pk_conflict new r =
     (r_domain r = r_domain new \<and> r_subdomain r \<noteq> None \<and> r_subdomain r = r_subdomain new)"

definition insert_or_replace :: "row \<Rightarrow> table \<Rightarrow> table" where
  "insert_or_replace new db = filter (\<lambda>r. \<not> pk_conflict new r) db @ [new]"

text \<open>
  \<open>store_ip_in_db\<close>: \<open>timestamp\<close> is the value of \<open>int(time.time())\<close> read by the call.
\<close>

definition store_ip_in_db :: "string \<Rightarrow> string option \<Rightarrow> string \<Rightarrow> int \<Rightarrow> table \<Rightarrow> table" where
  "store_ip_in_db domain subdomain ip timestamp db =
     (let db1 = filter (\<lambda>r. \<not> where_key domain subdomain r) db
      in if truthy subdomain
         then insert_or_replace
                \<lparr>r_domain = domain, r_subdomain = subdomain, r_ip = ip, r_timestamp = timestamp\<rparr> db1
         else insert_or_replace
                \<lparr>r_domain = domain, r_subdomain = None, r_ip = ip, r_timestamp = timestamp\<rparr> db1)"

text \<open>
  \<open>check_if_resolution_valid\<close>: \<open>current_time\<close> is the value of \<open>int(time.time())\<close> read by
  the call. The result is the returned boolean or the exception, and the table after the
  call. The DELETE statement of the expiry branch always has two placeholders; with a false
  \<open>subdomain\<close> only one value is bound and sqlite3 raises before anything is deleted.
\<close>

definition check_if_resolution_valid ::
    "string \<Rightarrow> string option \<Rightarrow> int \<Rightarrow> table \<Rightarrow> (exn + bool) \<times> table" where
  "check_if_resolution_valid domain subdomain current_time db =
     (let five_minutes = 5 * 60
      in case fetchone (filter (where_key domain subdomain) db) of
           Some result \<Rightarrow>
             (if current_time - r_timestamp result > five_minutes
              then (if truthy subdomain
                    then (Inr False,
                          filter (\<lambda>r. \<not> (r_domain r = domain \<and> r_subdomain r = subdomain)) db)
                    else (Inl ProgrammingError, db))
              else (Inr True, db))
         | None \<Rightarrow> (Inr False, db))"

text \<open>The key of a row, and the invariant: no two rows with the same key.\<close>

definition key_of :: "row \<Rightarrow> string \<times> string option" where
  "key_of r = (r_domain r, r_subdomain r)"

definition key_unique :: "table \<Rightarrow> bool" where
  "key_unique db = distinct (map key_of db)"

text \<open>The key under which the module files a call with arguments \<open>domain\<close>, \<open>subdomain\<close>.\<close>

definition cache_key :: "string \<Rightarrow> string option \<Rightarrow> string \<times> string option" where
  "cache_key domain subdomain = (domain, if truthy subdomain then subdomain else None)"

section \<open>String operations of Python used by dns\_server.py\<close>

text \<open>\<open>s.endswith(suffix)\<close>.\<close>

definition endswith :: "string \<Rightarrow> string \<Rightarrow> bool" where
  "endswith s suffix =
     (length suffix \<le> length s \<and> drop (length s - length suffix) s = suffix)"

text \<open>\<open>s.split(c)\<close> for a separator of one character: one more part than separators.\<close>

fun split_on :: "char \<Rightarrow> string \<Rightarrow> string list" where
  "split_on c [] = [[]]"
| "split_on c (x # xs) =
     (if x = c then [] # split_on c xs
      else (case split_on c xs of
              p # ps \<Rightarrow> (x # p) # ps
            | [] \<Rightarrow> [[x]]))"

text \<open>\<open>sep.join(parts)\<close>.\<close>

fun join_on :: "string \<Rightarrow> string list \<Rightarrow> string" where
  "join_on sep [] = []"
| "join_on sep [p] = p"
| "join_on sep (p # q # ps) = p @ sep @ join_on sep (q # ps)"

text \<open>\<open>s.strip(chars)\<close>: removes the given characters from both ends.\<close>

definition strip_chars :: "char list \<Rightarrow> string \<Rightarrow> string" where
  "strip_chars cs s =
     rev (dropWhile (\<lambda>c. c \<in> set cs) (rev (dropWhile (\<lambda>c. c \<in> set cs) s)))"

text \<open>
  The characters removed by \<open>s.strip()\<close> without argument, in the ASCII range: tab, line
  feed, vertical tab, form feed, carriage return, the four separators 0x1c to 0x1f, space.
\<close>

definition py_whitespace :: "char list" where
  "py_whitespace =
     [CHR 0x09, CHR 0x0A, CHR 0x0B, CHR 0x0C, CHR 0x0D, CHR 0x1C, CHR 0x1D, CHR 0x1E, CHR 0x1F,
      CHR '' '']"

text \<open>\<open>str(x)\<close> of a value that is a string or \<open>None\<close>.\<close>

definition py_str :: "string option \<Rightarrow> string" where
  "py_str x = (case x of None \<Rightarrow> ''None'' | Some s \<Rightarrow> s)"

section \<open>Messages of the DNS library\<close>

text \<open>
  Parsing and serialisation belong to the DNS library. A query is given as the parsed
  message; the bytes of a response are represented by the message they encode.
\<close>

record question =
  qn_name :: string     \<comment> \<open>\<open>name.to_text()\<close>, with the trailing dot of an absolute name\<close>
  qn_rdtype :: nat

record query =
  q_id :: nat
  q_question :: "question list"

datatype rdtype = A | AAAA

record rrset =
  rr_name :: string
  rr_rdtype :: rdtype
  rr_ttl :: int
  rr_rdata :: "string list"

type_synonym rcode = nat

definition NOERROR :: rcode where
  "NOERROR = 0"

definition SERVFAIL :: rcode where
  "SERVFAIL = 2"

record response =
  resp_id :: nat
  resp_question :: "question list"
  resp_rcode :: rcode
  resp_answer :: "rrset list"

datatype wire = Wire response

text \<open>\<open>dns.message.make_response(query)\<close>: same id and question, no error, no records.\<close>

definition make_response :: "query \<Rightarrow> response" where
  "make_response query =
     \<lparr>resp_id = q_id query, resp_question = q_question query, resp_rcode = NOERROR,
      resp_answer = []\<rparr>"

text \<open>
  \<open>Message.set_rcode(rcode)\<close> changes the message in place and returns \<open>None\<close>. The first
  component is the message after the call, the second is the value of the call expression.
\<close>

definition set_rcode :: "response \<Rightarrow> rcode \<Rightarrow> response \<times> response option" where
  "set_rcode r c = (r\<lparr>resp_rcode := c\<rparr>, None)"

text \<open>
  \<open>response.to_wire()\<close> on the value bound to \<open>response\<close>: \<open>None\<close> has no such attribute.
\<close>

definition to_wire :: "response option \<Rightarrow> exn + wire" where
  "to_wire response = (case response of None \<Rightarrow> Inl AttributeError | Some r \<Rightarrow> Inr (Wire r))"

section \<open>The collaborators outside the repository\<close>

text \<open>
  A failed \<open>dns.resolver.resolve\<close>: the three classes named by the \<open>except\<close> clause of
  \<open>get_ip_or_domain\<close>; \<open>DNSException\<close> is the base class of the resolver's errors
  (timeout, no name servers, malformed name).
\<close>

datatype dns_failure = NXDOMAIN | NoAnswer | DNSException

text \<open>
  The three outcomes of \<open>socket.inet_pton(family, text)\<close>: the packed address is returned;
  \<open>socket.error\<close> is raised, the text being no address of the family; or the text is
  refused when the argument is converted, before it is parsed, with \<open>ValueError\<close> (an
  embedded NUL character, or a character that cannot be encoded, whose exception is a
  subclass of \<open>ValueError\<close>).
\<close>

datatype pton_result = Accepted | SocketError | ArgumentError

text \<open>
  The platform and the network, as parameters:
  \<^item> \<open>inet_pton4\<close>, \<open>inet_pton6\<close>: the outcome of \<open>socket.inet_pton\<close> on the text for
    \<open>AF_INET\<close>, for \<open>AF_INET6\<close>;
  \<^item> \<open>resolver_resolve\<close>: \<open>dns.resolver.resolve(name, 'A')\<close>, giving the text of the
    first record of the answer (an answer holds at least one record) or the failure;
  \<^item> \<open>avahi_resolve\<close>: \<open>subprocess.run(['avahi-resolve', '--name', host], ...)\<close>, giving
    the return code and the standard output, or the exception of a process that could not
    be run;
  \<^item> \<open>udp_query\<close>: \<open>dns.query.udp(query, DNS_RESOLVER)\<close>, giving the upstream response or
    the exception.
\<close>

record env =
  inet_pton4 :: "string \<Rightarrow> pton_result"
  inet_pton6 :: "string \<Rightarrow> pton_result"
  resolver_resolve :: "string \<Rightarrow> dns_failure + string"
  avahi_resolve :: "string \<Rightarrow> exn + (int \<times> string)"
  udp_query :: "query \<Rightarrow> exn + response"

section \<open>The server (dns\_server.py)\<close>

text \<open>The configuration: Python dictionaries in their order of insertion.\<close>

record config_data =
  ip :: string
  subdomains :: "(string \<times> string) list"

type_synonym config = "(string \<times> config_data) list"

datatype ip_type = IPv4 | IPv6

text \<open>
  \<open>is_valid_ip\<close>: each \<open>except\<close> clause names \<open>socket.error\<close> only, so an exception of
  the argument conversion leaves the function.
\<close>

definition is_valid_ip :: "env \<Rightarrow> string \<Rightarrow> exn + ip_type option" where
  "is_valid_ip e addr =
     (case inet_pton4 e addr of
        Accepted \<Rightarrow> Inr (Some IPv4)
      | ArgumentError \<Rightarrow> Inl ValueError
      | SocketError \<Rightarrow>
          (case inet_pton6 e addr of
             Accepted \<Rightarrow> Inr (Some IPv6)
           | ArgumentError \<Rightarrow> Inl ValueError
           | SocketError \<Rightarrow> Inr None))"

text \<open>
  \<open>get_ip_or_domain\<close>: the call of \<open>is_valid_ip\<close> is outside the \<open>try\<close>; the \<open>except\<close>
  clause catches every failure class of the lookup.
\<close>

definition get_ip_or_domain :: "env \<Rightarrow> string \<Rightarrow> exn + string" where
  "get_ip_or_domain e input_str =
     (case is_valid_ip e input_str of
        Inl ex \<Rightarrow> Inl ex
      | Inr (Some t) \<Rightarrow> Inr input_str
      | Inr None \<Rightarrow>
          (case resolver_resolve e input_str of
             Inr answer0 \<Rightarrow> Inr answer0
           | Inl NXDOMAIN \<Rightarrow> Inr input_str
           | Inl NoAnswer \<Rightarrow> Inr input_str
           | Inl DNSException \<Rightarrow> Inr input_str))"

definition create_dns_record :: "env \<Rightarrow> string \<Rightarrow> int \<Rightarrow> string \<Rightarrow> exn + rrset" where
  "create_dns_record e domain ttl addr =
     (case is_valid_ip e addr of
        Inl ex \<Rightarrow> Inl ex
      | Inr (Some IPv4) \<Rightarrow>
          Inr \<lparr>rr_name = domain, rr_rdtype = A, rr_ttl = ttl, rr_rdata = [addr]\<rparr>
      | Inr (Some IPv6) \<Rightarrow>
          Inr \<lparr>rr_name = domain, rr_rdtype = AAAA, rr_ttl = ttl, rr_rdata = [addr]\<rparr>
      | Inr None \<Rightarrow> Inl ValueError)"

definition separate_domain_and_subdomain :: "string \<Rightarrow> string option \<times> string" where
  "separate_domain_and_subdomain qname =
     (let parts = split_on CHR ''.'' qname
      in if length parts > 2
         then (Some (join_on ''.'' (take (length parts - 2) parts)),
               join_on ''.'' (drop (length parts - 2) parts))
         else (None, qname))"

text \<open>
  A cache write handed to a background thread: the arguments of \<open>store_ip_in_db\<close>. The
  thread reads the clock itself when it runs.
\<close>

type_synonym cache_write = "string \<times> string option \<times> string"

text \<open>
  The address that \<open>create_dns_entry\<close> serves (the first statement of the function, up to
  the choice of \<open>ip\<close>): the validity check may raise and may change the table. When
  \<open>str(old_ip) == str(ip)\<close> the cached value itself is bound to \<open>ip\<close>; a cached value of
  \<open>None\<close> fails in \<open>is_valid_ip\<close> afterwards.
\<close>

definition served_ip ::
    "env \<Rightarrow> int \<Rightarrow> string \<Rightarrow> string \<Rightarrow> string option \<Rightarrow> table \<Rightarrow> (exn + string) \<times> table" where
  "served_ip e now target domain subdomain db =
     (case check_if_resolution_valid domain subdomain now db of
        (Inl ex, db1) \<Rightarrow> (Inl ex, db1)
      | (Inr True, db1) \<Rightarrow>
          (let old_ip = get_ip_from_db domain subdomain db1
           in if py_str old_ip \<noteq> target then (get_ip_or_domain e target, db1)
              else (case old_ip of Some a \<Rightarrow> (Inr a, db1) | None \<Rightarrow> (Inl TypeError, db1)))
      | (Inr False, db1) \<Rightarrow> (get_ip_or_domain e target, db1))"

text \<open>
  \<open>create_dns_entry\<close>: the response, the cache write it starts, and the table after the
  call. An exception leaves no write behind, the thread being started last.
\<close>

definition create_dns_entry ::
    "env \<Rightarrow> int \<Rightarrow> string \<Rightarrow> query \<Rightarrow> string \<Rightarrow> string option \<Rightarrow> table
       \<Rightarrow> (exn + response \<times> cache_write list) \<times> table" where
  "create_dns_entry e now target query domain subdomain db =
     (case served_ip e now target domain subdomain db of
        (Inl ex, db1) \<Rightarrow> (Inl ex, db1)
      | (Inr addr, db1) \<Rightarrow>
          (let full_domain = (if truthy subdomain then py_str subdomain @ ''.'' @ domain
                              else domain);
               response = make_response query
           in case create_dns_record e full_domain 3600 addr of
                Inl ex \<Rightarrow> (Inl ex, db1)
              | Inr answer \<Rightarrow>
                  (Inr (response\<lparr>resp_answer := resp_answer response @ [answer]\<rparr>,
                        [(domain, subdomain, addr)]),
                   db1)))"

text \<open>\<open>parts[1]\<close> of a list.\<close>

definition index1 :: "'a list \<Rightarrow> exn + 'a" where
  "index1 parts = (case parts of _ # x # _ \<Rightarrow> Inr x | _ \<Rightarrow> Inl IndexError)"

text \<open>
  \<open>resolve_mdns\<close>: every exception inside is caught by \<open>except Exception\<close>. Each failure
  branch returns the value of the call \<open>set_rcode(...)\<close>, not the message.
\<close>

definition resolve_mdns ::
    "env \<Rightarrow> int \<Rightarrow> string \<Rightarrow> query \<Rightarrow> string \<Rightarrow> string option \<Rightarrow> table
       \<Rightarrow> (response option \<times> cache_write list) \<times> table" where
  "resolve_mdns e now ip_host query domain subdomain db =
     (case avahi_resolve e ip_host of
        Inl ex \<Rightarrow> ((snd (set_rcode (make_response query) SERVFAIL), []), db)
      | Inr (returncode, stdout) \<Rightarrow>
          (if returncode = 0
           then (case index1 (split_on CHR 0x09 (strip_chars py_whitespace stdout)) of
                   Inl ex \<Rightarrow> ((snd (set_rcode (make_response query) SERVFAIL), []), db)
                 | Inr addr \<Rightarrow>
                     (case is_valid_ip e addr of
                        Inl ex \<Rightarrow> ((snd (set_rcode (make_response query) SERVFAIL), []), db)
                      | Inr None \<Rightarrow>
                          ((snd (set_rcode (make_response query) SERVFAIL), []), db)
                      | Inr (Some t) \<Rightarrow>
                          (case create_dns_entry e now addr query domain subdomain db of
                             (Inl ex, db1) \<Rightarrow>
                               ((snd (set_rcode (make_response query) SERVFAIL), []), db1)
                           | (Inr (response, writes), db1) \<Rightarrow>
                               ((Some response, writes), db1))))
           else ((snd (set_rcode (make_response query) SERVFAIL), []), db)))"

text \<open>
  \<open>resolve_dns_entry\<close>: \<open>now\<close> is the clock read by its own validity check, \<open>now2\<close> the
  clock read by the check inside \<open>create_dns_entry\<close>. A read that finds nothing after a
  successful check binds \<open>None\<close> to \<open>ip\<close>, which fails in \<open>is_valid_ip\<close>.
\<close>

definition resolve_dns_entry ::
    "env \<Rightarrow> int \<Rightarrow> int \<Rightarrow> string \<Rightarrow> query \<Rightarrow> table
       \<Rightarrow> (exn + response \<times> cache_write list) \<times> table" where
  "resolve_dns_entry e now now2 qname query db =
     (case separate_domain_and_subdomain qname of
        (subdomain, domain) \<Rightarrow>
          (case check_if_resolution_valid domain subdomain now db of
             (Inl ex, db1) \<Rightarrow> (Inl ex, db1)
           | (Inr True, db1) \<Rightarrow>
               (case get_ip_from_db domain subdomain db1 of
                  None \<Rightarrow> (Inl TypeError, db1)
                | Some addr \<Rightarrow>
                    (case create_dns_entry e now2 addr query domain subdomain db1 of
                       (Inl ex, db2) \<Rightarrow> (Inl ex, db2)
                     | (Inr (response, writes), db2) \<Rightarrow>
                         (Inr (response, writes @ [(domain, subdomain, addr)]), db2)))
           | (Inr False, db1) \<Rightarrow>
               (case get_ip_or_domain e qname of
                  Inl ex \<Rightarrow> (Inl ex, db1)
                | Inr addr \<Rightarrow>
                    (case udp_query e query of
                       Inl ex \<Rightarrow> (Inl ex, db1)
                     | Inr response \<Rightarrow> (Inr (response, [(domain, subdomain, addr)]), db1)))))"

text \<open>
  The loop of \<open>handle_dns_query\<close> over \<open>config['special_domains'].items()\<close>: the branch in
  which the loop returns, with the values it has bound there.
\<close>

datatype match_result =
    ExactDomain string string            \<comment> \<open>domain, \<open>config_data["ip"]\<close>\<close>
  | Subdomain string string string       \<comment> \<open>domain, subdomain, \<open>config_data['subdomains'][subdomain]\<close>\<close>
  | NoMatch

fun match_config :: "string \<Rightarrow> config \<Rightarrow> match_result" where
  "match_config qname [] = NoMatch"
| "match_config qname ((domain, config_data) # rest) =
     (if qname = domain then ExactDomain domain (ip config_data)
      else if endswith qname (''.'' @ domain)
      then (let subdomain = take (length qname - length domain - 1) qname
            in case map_of (subdomains config_data) subdomain of
                 Some target \<Rightarrow> Subdomain domain subdomain target
               | None \<Rightarrow> match_config qname rest)
      else match_config qname rest)"

text \<open>The two branches of a match: local-network target, or any other target.\<close>

definition answer_match ::
    "env \<Rightarrow> int \<Rightarrow> string \<Rightarrow> query \<Rightarrow> string \<Rightarrow> string option \<Rightarrow> table
       \<Rightarrow> (exn + wire \<times> cache_write list) \<times> table" where
  "answer_match e now target query domain subdomain db =
     (if endswith target ''.local''
      then (case resolve_mdns e now target query domain subdomain db of
              ((response, writes), db1) \<Rightarrow>
                (case to_wire response of
                   Inl ex \<Rightarrow> (Inl ex, db1)
                 | Inr w \<Rightarrow> (Inr (w, writes), db1)))
      else (case create_dns_entry e now target query domain subdomain db of
              (Inl ex, db1) \<Rightarrow> (Inl ex, db1)
            | (Inr (response, writes), db1) \<Rightarrow>
                (case to_wire (Some response) of
                   Inl ex \<Rightarrow> (Inl ex, db1)
                 | Inr w \<Rightarrow> (Inr (w, writes), db1))))"

text \<open>
  \<open>handle_dns_query\<close> on the parsed query: the bytes returned and the cache writes
  started, or the exception that leaves the function; and the table after the call. Only
  the forwarding branch is inside a \<open>try\<close>.
\<close>

definition handle_dns_query ::
    "env \<Rightarrow> int \<Rightarrow> int \<Rightarrow> config \<Rightarrow> query \<Rightarrow> table
       \<Rightarrow> (exn + wire \<times> cache_write list) \<times> table" where
  "handle_dns_query e now now2 cfg query db =
     (case q_question query of
        [] \<Rightarrow> (Inl IndexError, db)
      | q0 # _ \<Rightarrow>
          (let qname = strip_chars ''.'' (qn_name q0)
           in case match_config qname cfg of
                ExactDomain domain target \<Rightarrow> answer_match e now target query domain None db
              | Subdomain domain subdomain target \<Rightarrow>
                  answer_match e now target query domain (Some subdomain) db
              | NoMatch \<Rightarrow>
                  (case resolve_dns_entry e now now2 qname query db of
                     (Inr (response, writes), db1) \<Rightarrow>
                       (case to_wire (Some response) of
                          Inl ex \<Rightarrow> (Inl ex, db1)
                        | Inr w \<Rightarrow> (Inr (w, writes), db1))
                   | (Inl ex, db1) \<Rightarrow>
                       (case to_wire (Some (fst (set_rcode (make_response query) SERVFAIL))) of
                          Inl ex' \<Rightarrow> (Inl ex', db1)
                        | Inr w \<Rightarrow> (Inr (w, []), db1)))))"

section \<open>Notions used to state the properties\<close>

text \<open>
  The operations on the cache, and the table after a sequence of them. A read with
  \<open>get_ip_from_db\<close> executes a SELECT only.
\<close>

datatype cache_op =
    Put string "string option" string int
  | Check string "string option" int
  | Get string "string option"

fun apply_cache_op :: "table \<Rightarrow> cache_op \<Rightarrow> table" where
  "apply_cache_op db (Put domain subdomain addr ts) = store_ip_in_db domain subdomain addr ts db"
| "apply_cache_op db (Check domain subdomain now) =
     snd (check_if_resolution_valid domain subdomain now db)"
| "apply_cache_op db (Get domain subdomain) = db"

definition run_cache :: "table \<Rightarrow> cache_op list \<Rightarrow> table" where
  "run_cache db ops = foldl apply_cache_op db ops"

text \<open>
  The subdomain part that the loop cuts off a query name, and whether one entry of the
  configuration makes the loop return.
\<close>

definition sub_label :: "string \<Rightarrow> string \<Rightarrow> string" where
  "sub_label qname domain = take (length qname - length domain - 1) qname"

definition entry_hit :: "string \<Rightarrow> string \<times> config_data \<Rightarrow> bool" where
  "entry_hit qname dc =
     (if qname = fst dc then True
      else if endswith qname (''.'' @ fst dc)
      then map_of (subdomains (snd dc)) (sub_label qname (fst dc)) \<noteq> None
      else False)"

definition hit_result :: "string \<Rightarrow> string \<times> config_data \<Rightarrow> match_result" where
  "hit_result qname dc =
     (if qname = fst dc then ExactDomain (fst dc) (ip (snd dc))
      else (case map_of (subdomains (snd dc)) (sub_label qname (fst dc)) of
              Some target \<Rightarrow> Subdomain (fst dc) (sub_label qname (fst dc)) target
            | None \<Rightarrow> NoMatch))"

text \<open>
  A platform for the scenarios: \<open>inet_pton\<close> refuses a text with a NUL character, accepts
  for \<open>AF_INET\<close> four decimal numbers of one to three digits, at most 255, separated by
  dots, and accepts nothing for \<open>AF_INET6\<close>; every public lookup fails with NXDOMAIN;
  \<open>avahi-resolve\<close> exits with status 1; the upstream server cannot be reached.
\<close>

definition decimal_octet :: "string \<Rightarrow> bool" where
  "decimal_octet s =
     (s \<noteq> [] \<and> length s \<le> 3 \<and> list_all (\<lambda>c. c \<in> set ''0123456789'') s \<and>
      foldl (\<lambda>n c. 10 * n + (of_char c - 48)) (0::nat) s \<le> 255)"

definition dotted_quad :: "string \<Rightarrow> bool" where
  "dotted_quad s =
     (case split_on CHR ''.'' s of
        [a, b, c, d] \<Rightarrow> decimal_octet a \<and> decimal_octet b \<and> decimal_octet c \<and> decimal_octet d
      | _ \<Rightarrow> False)"

definition offline_env :: env where
  "offline_env =
     \<lparr>inet_pton4 = (\<lambda>s. if CHR 0x00 \<in> set s then ArgumentError
                        else if dotted_quad s then Accepted else SocketError),
      inet_pton6 = (\<lambda>s. if CHR 0x00 \<in> set s then ArgumentError else SocketError),
      resolver_resolve = (\<lambda>name. Inl NXDOMAIN),
      avahi_resolve = (\<lambda>host. Inr (1, [])),
      udp_query = (\<lambda>q. Inl OSError)\<rparr>"

section \<open>The cache\<close>

lemma key_unique_filter: "key_unique db \<Longrightarrow> key_unique (filter P db)"
  by (simp add: key_unique_def distinct_map_filter)

lemma key_unique_store:
  "key_unique db \<Longrightarrow> key_unique (store_ip_in_db domain subdomain addr ts db)"
  by (auto simp: store_ip_in_db_def insert_or_replace_def key_unique_def key_of_def where_key_def
      pk_conflict_def Let_def distinct_map_filter truthy_def split: option.splits)

lemma key_unique_check:
  "key_unique db \<Longrightarrow> key_unique (snd (check_if_resolution_valid domain subdomain now db))"
  by (auto simp: check_if_resolution_valid_def key_unique_filter Let_def split: option.splits)

lemma store_replaces:
  "filter (\<lambda>r. key_of r = cache_key domain subdomain)
       (store_ip_in_db domain subdomain addr ts db) =
     [\<lparr>r_domain = domain, r_subdomain = snd (cache_key domain subdomain), r_ip = addr,
       r_timestamp = ts\<rparr>]"
  by (auto simp: store_ip_in_db_def insert_or_replace_def cache_key_def key_of_def where_key_def
      pk_conflict_def Let_def filter_empty_conv)

lemma store_keeps_other_keys:
  "k \<noteq> cache_key domain subdomain \<Longrightarrow>
   filter (\<lambda>r. key_of r = k) (store_ip_in_db domain subdomain addr ts db) =
   filter (\<lambda>r. key_of r = k) db"
  by (cases "truthy subdomain")
     (auto simp: store_ip_in_db_def insert_or_replace_def cache_key_def key_of_def where_key_def
      pk_conflict_def Let_def intro!: filter_cong)

lemma key_unique_apply: "key_unique db \<Longrightarrow> key_unique (apply_cache_op db op)"
  by (cases op) (simp_all add: key_unique_store key_unique_check)

lemma key_unique_run: "key_unique db \<Longrightarrow> key_unique (run_cache db ops)"
  unfolding run_cache_def by (induction ops arbitrary: db) (simp_all add: key_unique_apply)

text \<open>
  With a subdomain the validity check never raises, and a key reported as not valid stays
  so at any later read without a write in between.
\<close>

lemma check_returns_with_subdomain:
  "truthy subdomain \<Longrightarrow> \<exists>b. fst (check_if_resolution_valid domain subdomain now db) = Inr b"
  by (auto simp: check_if_resolution_valid_def fetchone_def split: list.splits if_splits)

lemma expired_read_stays_absent:
  assumes "truthy subdomain"
    and "check_if_resolution_valid domain subdomain now db = (Inr False, db1)"
  shows "check_if_resolution_valid domain subdomain now' db1 = (Inr False, db1)"
  using assms
  by (auto simp: check_if_resolution_valid_def fetchone_def where_key_def filter_empty_conv
      split: list.splits if_splits)

lemma valid_then_cached:
  "check_if_resolution_valid domain subdomain now db = (Inr True, db1) \<Longrightarrow>
   db1 = db \<and> get_ip_from_db domain subdomain db1 \<noteq> None"
  by (auto simp: check_if_resolution_valid_def get_ip_from_db_def fetchone_def
      split: list.splits if_splits)

text \<open>
  C1: the validity check reports not found exactly when there is no entry or the entry is
  older than five minutes, deletes an expired entry, and raises nothing for a miss or an
  expired read, also when the key has no subdomain. The code at an expired entry without
  subdomain: the entry for \<open>home.test\<close> written at time 1000 is read at time 1301; the
  call raises and the entry stays in the table.
\<close>

theorem expired_read_without_subdomain_raises:
  "check_if_resolution_valid ''home.test'' None 1301
     [\<lparr>r_domain = ''home.test'', r_subdomain = None, r_ip = ''192.168.1.10'',
       r_timestamp = 1000\<rparr>] =
   (Inl ProgrammingError,
    [\<lparr>r_domain = ''home.test'', r_subdomain = None, r_ip = ''192.168.1.10'',
      r_timestamp = 1000\<rparr>])"
  by (simp add: check_if_resolution_valid_def where_key_def truthy_def fetchone_def)

text \<open>
  C7: the cache holds at most one entry per key (domain, subdomain or absent). From a
  table with unique keys, a put leaves unique keys and exactly one row for its key, holding
  the new address and the timestamp of the put; a validity check leaves unique keys; and
  every table reached from start-up by puts, validity checks and reads has unique keys.
\<close>

theorem cache_key_uniqueness:
  assumes "key_unique db"
  shows "key_unique (store_ip_in_db domain subdomain addr ts db) \<and>
         filter (\<lambda>r. key_of r = cache_key domain subdomain)
             (store_ip_in_db domain subdomain addr ts db) =
           [\<lparr>r_domain = domain, r_subdomain = snd (cache_key domain subdomain), r_ip = addr,
             r_timestamp = ts\<rparr>] \<and>
         key_unique (snd (check_if_resolution_valid domain subdomain now db)) \<and>
         key_unique (run_cache (create_db file) ops)"
proof -
  have "key_unique (create_db file)"
    by (simp add: create_db_def key_unique_def)
  then have "key_unique (run_cache (create_db file) ops)"
    by (rule key_unique_run)
  with assms show ?thesis
    by (simp add: key_unique_store key_unique_check store_replaces)
qed

theorem cache_key_uniqueness_witness:
  "key_unique [\<lparr>r_domain = ''home.test'', r_subdomain = None, r_ip = ''192.168.1.10'',
                r_timestamp = 1000\<rparr>] \<and>
   store_ip_in_db ''home.test'' None ''192.168.1.99'' 2000
       [\<lparr>r_domain = ''home.test'', r_subdomain = None, r_ip = ''192.168.1.10'',
         r_timestamp = 1000\<rparr>] =
     [\<lparr>r_domain = ''home.test'', r_subdomain = None, r_ip = ''192.168.1.99'',
       r_timestamp = 2000\<rparr>] \<and>
   key_unique (store_ip_in_db ''home.test'' None ''192.168.1.99'' 2000
       [\<lparr>r_domain = ''home.test'', r_subdomain = None, r_ip = ''192.168.1.10'',
         r_timestamp = 1000\<rparr>])"
proof -
  have h: "key_unique [\<lparr>r_domain = ''home.test'', r_subdomain = None, r_ip = ''192.168.1.10'',
                         r_timestamp = 1000\<rparr>]"
    by (simp add: key_unique_def)
  have e: "store_ip_in_db ''home.test'' None ''192.168.1.99'' 2000
       [\<lparr>r_domain = ''home.test'', r_subdomain = None, r_ip = ''192.168.1.10'',
         r_timestamp = 1000\<rparr>] =
     [\<lparr>r_domain = ''home.test'', r_subdomain = None, r_ip = ''192.168.1.99'',
       r_timestamp = 2000\<rparr>]"
    by (simp add: store_ip_in_db_def insert_or_replace_def where_key_def truthy_def
        pk_conflict_def)
  from cache_key_uniqueness [OF h, of "''home.test''" None "''192.168.1.99''" 2000 0 None "[]"]
  have "key_unique (store_ip_in_db ''home.test'' None ''192.168.1.99'' 2000
       [\<lparr>r_domain = ''home.test'', r_subdomain = None, r_ip = ''192.168.1.10'',
         r_timestamp = 1000\<rparr>])"
    by (rule conjunct1)
  with h e show ?thesis by simp
qed

text \<open>
  C10: start-up removes an existing database and creates it without rows, so that right
  after it every read returns no address and every validity check reports not valid,
  whatever the file held before.
\<close>

theorem cache_empty_after_create_db:
  "create_db file = [] \<and>
   get_ip_from_db domain subdomain (create_db file) = None \<and>
   check_if_resolution_valid domain subdomain now (create_db file) = (Inr False, [])"
  by (simp add: create_db_def get_ip_from_db_def check_if_resolution_valid_def fetchone_def)

section \<open>The matcher\<close>

lemma match_config_find:
  "match_config qname cfg =
     (case List.find (entry_hit qname) cfg of None \<Rightarrow> NoMatch | Some dc \<Rightarrow> hit_result qname dc)"
proof (induction cfg)
  case Nil
  show ?case by simp
next
  case (Cons dc cfg)
  obtain domain cd where dc: "dc = (domain, cd)" by (cases dc)
  show ?case
  proof (cases "entry_hit qname (domain, cd)")
    case True
    then show ?thesis
      by (auto simp: dc entry_hit_def hit_result_def sub_label_def Let_def
          split: option.splits if_splits)
  next
    case False
    then have "match_config qname (dc # cfg) = match_config qname cfg"
      by (simp add: dc entry_hit_def sub_label_def Let_def split: option.splits if_splits)
    with False Cons.IH show ?thesis by (simp add: dc)
  qed
qed

lemma find_first_hit:
  "\<forall>dc \<in> set pre. \<not> P dc \<Longrightarrow> P x \<Longrightarrow> List.find P (pre @ x # post) = Some x"
  by (induction pre) auto

lemma match_exact_listed:
  assumes "cfg = pre @ (qname, cd) # post" and "\<forall>dc \<in> set pre. \<not> entry_hit qname dc"
  shows "match_config qname cfg = ExactDomain qname (ip cd)"
proof -
  have "entry_hit qname (qname, cd)" by (simp add: entry_hit_def)
  with assms have "List.find (entry_hit qname) cfg = Some (qname, cd)"
    by (simp add: find_first_hit)
  then show ?thesis by (simp add: match_config_find hit_result_def)
qed

lemma match_never_nomatch:
  assumes "(qname, cd) \<in> set cfg"
  shows "match_config qname cfg \<noteq> NoMatch"
  using assms by (induction cfg) (auto simp: Let_def split: option.splits if_splits)

text \<open>
  C3, as stated: a query name equal to a configured domain is always answered as the exact
  match of that domain, never as a subdomain match of an earlier-listed domain. The loop
  tests both kinds of match for one entry before it goes to the next: with \<open>test\<close>
  (subdomain \<open>home\<close>) listed before \<open>home.test\<close>, the query \<open>home.test\<close> is answered as the
  subdomain \<open>home\<close> of \<open>test\<close>.
\<close>

theorem exact_match_shadowed_by_earlier_subdomain:
  "match_config ''home.test''
     [(''test'', \<lparr>ip = ''10.0.0.1'', subdomains = [(''home'', ''10.0.0.2'')]\<rparr>),
      (''home.test'', \<lparr>ip = ''10.0.0.3'', subdomains = []\<rparr>)] =
   Subdomain ''test'' ''home'' ''10.0.0.2''"
  by (simp add: endswith_def)

text \<open>
  C3, amended: matching goes through the configured domains in their order and returns at
  the first entry that the query name equals (exact match) or of which it is a configured
  subdomain (subdomain match), and reports no match when there is no such entry. A query
  name equal to a configured domain is never reported as no match, and it is answered as
  the exact match of that domain when no earlier-listed entry has it as a configured
  subdomain.
\<close>

theorem match_config_first_entry:
  "match_config qname cfg =
     (case List.find (entry_hit qname) cfg of
        None \<Rightarrow> NoMatch
      | Some dc \<Rightarrow> hit_result qname dc) \<and>
   ((\<exists>cd. (qname, cd) \<in> set cfg) \<longrightarrow> match_config qname cfg \<noteq> NoMatch) \<and>
   (\<forall>pre cd post.
      cfg = pre @ (qname, cd) # post \<and> (\<forall>dc \<in> set pre. \<not> entry_hit qname dc) \<longrightarrow>
      match_config qname cfg = ExactDomain qname (ip cd))"
  using match_config_find match_exact_listed match_never_nomatch by blast

theorem match_config_first_entry_witness:
  "\<not> entry_hit ''home.test''
       (''lab.test'', \<lparr>ip = ''10.0.0.1'', subdomains = [(''nas'', ''10.0.0.2'')]\<rparr>) \<and>
   match_config ''home.test''
     [(''lab.test'', \<lparr>ip = ''10.0.0.1'', subdomains = [(''nas'', ''10.0.0.2'')]\<rparr>),
      (''home.test'', \<lparr>ip = ''192.168.1.10'', subdomains = []\<rparr>)] =
   ExactDomain ''home.test'' ''192.168.1.10''"
proof -
  let ?pre = "[(''lab.test'', \<lparr>ip = ''10.0.0.1'', subdomains = [(''nas'', ''10.0.0.2'')]\<rparr>)]"
  let ?cd = "\<lparr>ip = ''192.168.1.10'', subdomains = []\<rparr>"
  have h: "\<forall>dc \<in> set ?pre. \<not> entry_hit ''home.test'' dc"
    by (simp add: entry_hit_def endswith_def)
  have c: "?pre @ (''home.test'', ?cd) # [] = ?pre @ (''home.test'', ?cd) # [] \<and>
           (\<forall>dc \<in> set ?pre. \<not> entry_hit ''home.test'' dc)"
    using h by simp
  note t = match_config_first_entry [of "''home.test''" "?pre @ (''home.test'', ?cd) # []",
      THEN conjunct2, THEN conjunct2, THEN spec, THEN spec, THEN spec, THEN mp, OF c]
  from t h show ?thesis by simp
qed

section \<open>Query names\<close>

lemma split_on_nonempty: "split_on c s \<noteq> []"
  by (induction s) (auto split: list.splits)

lemma split_on_single: "c \<notin> set l \<Longrightarrow> split_on c l = [l]"
  by (induction l) auto

lemma split_on_append: "c \<notin> set l \<Longrightarrow> split_on c (l @ c # rest) = l # split_on c rest"
  by (induction l) auto

lemma split_join:
  "ls \<noteq> [] \<Longrightarrow> \<forall>l \<in> set ls. c \<notin> set l \<Longrightarrow> split_on c (join_on [c] ls) = ls"
proof (induction "[c]" ls rule: join_on.induct)
  case 1
  then show ?case by simp
next
  case (2 p)
  then show ?case by (simp add: split_on_single)
next
  case (3 p q ps)
  then show ?case by (simp add: split_on_append)
qed

text \<open>
  Every name is the join of its labels, and no label holds a dot: the labels of a name
  are well defined.
\<close>

lemma join_split: "join_on [c] (split_on c s) = s"
proof (induction s)
  case Nil
  then show ?case by simp
next
  case (Cons x xs)
  show ?case
  proof (cases "split_on c xs")
    case Nil
    then show ?thesis using split_on_nonempty [of c xs] by simp
  next
    case (Cons p ps)
    with Cons.IH show ?thesis by (cases ps) auto
  qed
qed

lemma split_parts_free: "\<forall>l \<in> set (split_on c s). c \<notin> set l"
  by (induction s) (auto split: list.splits)

text \<open>
  C9: for a query name made of the labels \<open>ls\<close>, the decomposition gives no subdomain and
  the whole name as domain when there are at most two labels, and otherwise the labels
  before the last two joined by dots as subdomain and the last two labels joined by a dot
  as domain.
\<close>

theorem separate_by_labels:
  assumes "ls \<noteq> []" and "\<forall>l \<in> set ls. CHR ''.'' \<notin> set l"
  shows "separate_domain_and_subdomain (join_on ''.'' ls) =
           (if length ls \<le> 2 then (None, join_on ''.'' ls)
            else (Some (join_on ''.'' (take (length ls - 2) ls)),
                  join_on ''.'' (drop (length ls - 2) ls)))"
  using split_join [OF assms] by (auto simp: separate_domain_and_subdomain_def Let_def)

theorem separate_by_labels_witness:
  "CHR ''.'' \<notin> set ''a'' \<and> CHR ''.'' \<notin> set ''nas'' \<and> CHR ''.'' \<notin> set ''home'' \<and>
   CHR ''.'' \<notin> set ''test'' \<and>
   separate_domain_and_subdomain ''a.nas.home.test'' = (Some ''a.nas'', ''home.test'') \<and>
   separate_domain_and_subdomain ''home.test'' = (None, ''home.test'')"
proof -
  have h1: "[''a'', ''nas'', ''home'', ''test''] \<noteq> []" by simp
  have h2: "\<forall>l \<in> set [''a'', ''nas'', ''home'', ''test'']. CHR ''.'' \<notin> set l" by simp
  have g1: "[''home'', ''test''] \<noteq> []" by simp
  have g2: "\<forall>l \<in> set [''home'', ''test'']. CHR ''.'' \<notin> set l" by simp
  from separate_by_labels [OF h1 h2] separate_by_labels [OF g1 g2] show ?thesis by simp
qed

section \<open>The address resolver\<close>

lemma dotted_quad_home: "dotted_quad ''192.168.1.10''"
  by (simp add: dotted_quad_def decimal_octet_def)

lemma dotted_quad_literal: "dotted_quad ''203.0.113.5''"
  by (simp add: dotted_quad_def decimal_octet_def)

lemma dotted_quad_name: "\<not> dotted_quad ''nas.invalid''"
  by (simp add: dotted_quad_def decimal_octet_def)

text \<open>
  When \<open>inet_pton\<close> refuses the text, the resolver raises, whatever the lookup would give.
\<close>

lemma get_ip_or_domain_raises:
  "is_valid_ip e s = Inl ex \<Longrightarrow> get_ip_or_domain e s = Inl ex"
  by (simp add: get_ip_or_domain_def)

lemma is_valid_ip_raises:
  "inet_pton4 e s = ArgumentError \<Longrightarrow> is_valid_ip e s = Inl ValueError"
  by (simp add: is_valid_ip_def)

text \<open>
  C6, as stated: for every input string, a non-literal whose public lookup fails is
  returned unchanged, without raising, so that every unresolvable name is a fixed point. The
  name made of \<open>a\<close>, a NUL character and \<open>b\<close> is no literal and its lookup fails, and the
  resolver raises on it: \<open>inet_pton\<close> refuses the text before the lookup is tried.
\<close>

theorem get_ip_or_domain_raises_on_nul:
  "resolver_resolve offline_env [CHR ''a'', CHR 0x00, CHR ''b''] = Inl NXDOMAIN \<and>
   get_ip_or_domain offline_env [CHR ''a'', CHR 0x00, CHR ''b''] = Inl ValueError"
  by (simp add: get_ip_or_domain_def is_valid_ip_def offline_env_def)

text \<open>
  C6, amended: for every input string that \<open>inet_pton\<close> takes as its argument (so that
  the check for a literal finishes), the resolver returns a valid IPv4 or IPv6 literal
  unchanged, and returns a non-literal unchanged and without raising when its public
  lookup fails, whatever the failure; on these inputs a second application gives the same
  string again.
\<close>

theorem get_ip_or_domain_pass_through:
  assumes "is_valid_ip e s = Inr v"
    and "v \<noteq> None \<or> (\<exists>f. resolver_resolve e s = Inl f)"
  shows "get_ip_or_domain e s = Inr s \<and>
         (case get_ip_or_domain e s of
            Inl ex \<Rightarrow> Inl ex
          | Inr r \<Rightarrow> get_ip_or_domain e r) = Inr s"
proof -
  have "get_ip_or_domain e s = Inr s"
    using assms
    by (auto simp: get_ip_or_domain_def split: sum.splits dns_failure.splits option.splits)
  then show ?thesis by simp
qed

theorem get_ip_or_domain_pass_through_witness:
  "is_valid_ip offline_env ''203.0.113.5'' = Inr (Some IPv4) \<and>
   get_ip_or_domain offline_env ''203.0.113.5'' = Inr ''203.0.113.5'' \<and>
   is_valid_ip offline_env ''nas.invalid'' = Inr None \<and>
   resolver_resolve offline_env ''nas.invalid'' = Inl NXDOMAIN \<and>
   get_ip_or_domain offline_env ''nas.invalid'' = Inr ''nas.invalid''"
proof -
  have l: "is_valid_ip offline_env ''203.0.113.5'' = Inr (Some IPv4)"
    by (simp add: is_valid_ip_def offline_env_def dotted_quad_literal)
  have n: "is_valid_ip offline_env ''nas.invalid'' = Inr None"
    by (simp add: is_valid_ip_def offline_env_def dotted_quad_name)
  have f: "resolver_resolve offline_env ''nas.invalid'' = Inl NXDOMAIN"
    by (simp add: offline_env_def)
  have "get_ip_or_domain offline_env ''203.0.113.5'' = Inr ''203.0.113.5''"
    using get_ip_or_domain_pass_through [OF l] by simp
  moreover have "get_ip_or_domain offline_env ''nas.invalid'' = Inr ''nas.invalid''"
    using get_ip_or_domain_pass_through [OF n] f by blast
  ultimately show ?thesis using l n f by simp
qed

section \<open>The query engine\<close>

text \<open>
  The address served when the validity check returns: the cached address when the entry
  is valid and equal to the target, the resolved target otherwise.
\<close>

lemma served_ip_when_check_returns:
  assumes "check_if_resolution_valid domain subdomain now db = (Inr valid, db1)"
  shows "served_ip e now target domain subdomain db =
     (if valid \<and> get_ip_from_db domain subdomain db1 = Some target
      then (Inr target, db1) else (get_ip_or_domain e target, db1))"
  using assms valid_then_cached [of domain subdomain now db db1]
  by (cases valid) (auto simp: served_ip_def py_str_def split: option.splits)

text \<open>
  C5: for a matched entry with a target that is not local, the address served is the
  resolved target when a valid cached address differs from the target, the cached address
  when it equals the target, and the resolved target when no valid cache entry exists.
  The code where the only entry of a key without subdomain has expired: the entry for
  \<open>home.test\<close> written at time 1000, the query at time 1301. The validity check raises,
  the target is not resolved and no response is built.
\<close>

theorem expired_entry_stops_create_dns_entry:
  "create_dns_entry offline_env 1301 ''192.168.1.10''
     \<lparr>q_id = 7, q_question = [\<lparr>qn_name = ''home.test.'', qn_rdtype = 1\<rparr>]\<rparr>
     ''home.test'' None
     [\<lparr>r_domain = ''home.test'', r_subdomain = None, r_ip = ''192.168.1.10'',
       r_timestamp = 1000\<rparr>] =
   (Inl ProgrammingError,
    [\<lparr>r_domain = ''home.test'', r_subdomain = None, r_ip = ''192.168.1.10'',
      r_timestamp = 1000\<rparr>])"
  by (simp add: create_dns_entry_def served_ip_def check_if_resolution_valid_def where_key_def
      truthy_def fetchone_def)

text \<open>
  C8: with \<open>home.test\<close> configured with the literal target \<open>192.168.1.10\<close>, no subdomains
  and an empty cache, a query for \<open>home.test\<close> is answered with exactly one record: an
  IPv4 address record for \<open>home.test\<close> with address \<open>192.168.1.10\<close> and TTL 3600, on any
  platform that accepts \<open>192.168.1.10\<close> as an IPv4 literal.
\<close>

theorem exact_match_scenario:
  assumes "inet_pton4 e ''192.168.1.10'' = Accepted"
    and "q_question query = q0 # qs"
    and "strip_chars ''.'' (qn_name q0) = ''home.test''"
  shows "handle_dns_query e now now2
           [(''home.test'', \<lparr>ip = ''192.168.1.10'', subdomains = []\<rparr>)] query [] =
         (Inr (Wire \<lparr>resp_id = q_id query, resp_question = q_question query,
                     resp_rcode = NOERROR,
                     resp_answer = [\<lparr>rr_name = ''home.test'', rr_rdtype = A, rr_ttl = 3600,
                                     rr_rdata = [''192.168.1.10'']\<rparr>]\<rparr>,
               [(''home.test'', None, ''192.168.1.10'')]),
          [])"
  using assms
  by (simp add: handle_dns_query_def answer_match_def endswith_def create_dns_entry_def
      served_ip_def check_if_resolution_valid_def fetchone_def get_ip_or_domain_def
      is_valid_ip_def create_dns_record_def make_response_def to_wire_def truthy_def Let_def)

theorem exact_match_scenario_witness:
  "inet_pton4 offline_env ''192.168.1.10'' = Accepted \<and>
   strip_chars ''.'' ''home.test.'' = ''home.test'' \<and>
   handle_dns_query offline_env 0 0
     [(''home.test'', \<lparr>ip = ''192.168.1.10'', subdomains = []\<rparr>)]
     \<lparr>q_id = 7, q_question = [\<lparr>qn_name = ''home.test.'', qn_rdtype = 1\<rparr>]\<rparr> [] =
   (Inr (Wire \<lparr>resp_id = 7, resp_question = [\<lparr>qn_name = ''home.test.'', qn_rdtype = 1\<rparr>],
               resp_rcode = NOERROR,
               resp_answer = [\<lparr>rr_name = ''home.test'', rr_rdtype = A, rr_ttl = 3600,
                               rr_rdata = [''192.168.1.10'']\<rparr>]\<rparr>,
         [(''home.test'', None, ''192.168.1.10'')]),
    [])"
proof -
  let ?q0 = "\<lparr>qn_name = ''home.test.'', qn_rdtype = 1\<rparr>"
  let ?query = "\<lparr>q_id = 7, q_question = [?q0]\<rparr>"
  have h1: "inet_pton4 offline_env ''192.168.1.10'' = Accepted"
    by (simp add: offline_env_def dotted_quad_home)
  have h2: "q_question ?query = ?q0 # []" by simp
  have h3: "strip_chars ''.'' (qn_name ?q0) = ''home.test''"
    by (simp add: strip_chars_def)
  from exact_match_scenario [OF h1 h2 h3, of 0 0] h1 h3 show ?thesis by simp
qed

text \<open>
  A local-network resolution that fails makes \<open>resolve_mdns\<close> return \<open>None\<close>, and the
  handler then fails on \<open>response.to_wire()\<close>.
\<close>

lemma resolve_mdns_nonzero_status:
  assumes "avahi_resolve e host = Inr (rc, out)" and "rc \<noteq> 0"
  shows "resolve_mdns e now host query domain subdomain db = ((None, []), db)"
  using assms by (simp add: resolve_mdns_def set_rcode_def)

lemma resolve_mdns_exception:
  assumes "avahi_resolve e host = Inl ex"
  shows "resolve_mdns e now host query domain subdomain db = ((None, []), db)"
  using assms by (simp add: resolve_mdns_def set_rcode_def)

lemma resolve_mdns_invalid_output:
  assumes "avahi_resolve e host = Inr (0, out)"
    and "index1 (split_on CHR 0x09 (strip_chars py_whitespace out)) = Inl ex \<or>
         (\<exists>addr. index1 (split_on CHR 0x09 (strip_chars py_whitespace out)) = Inr addr \<and>
                 (is_valid_ip e addr = Inr None \<or> (\<exists>ex'. is_valid_ip e addr = Inl ex')))"
  shows "resolve_mdns e now host query domain subdomain db = ((None, []), db)"
  using assms by (auto simp: resolve_mdns_def set_rcode_def)

lemma answer_match_mdns_none:
  assumes "endswith target ''.local''"
    and "resolve_mdns e now target query domain subdomain db = ((None, ws), db1)"
  shows "answer_match e now target query domain subdomain db = (Inl AttributeError, db1)"
  using assms by (simp add: answer_match_def to_wire_def)

text \<open>
  C4: for a matched query whose target ends in \<open>.local\<close>, a failed local-network
  resolution gives a server-failure response without record. The code where
  \<open>avahi-resolve\<close> exits with status 1 for the target \<open>printer.local\<close> of \<open>home.test\<close>: the
  handler raises instead of returning a response.
\<close>

theorem mdns_failure_raises:
  "handle_dns_query offline_env 0 0
     [(''home.test'', \<lparr>ip = ''printer.local'', subdomains = []\<rparr>)]
     \<lparr>q_id = 7, q_question = [\<lparr>qn_name = ''home.test.'', qn_rdtype = 1\<rparr>]\<rparr> [] =
   (Inl AttributeError, [])"
  by (simp add: handle_dns_query_def strip_chars_def answer_match_def endswith_def
      resolve_mdns_def set_rcode_def to_wire_def offline_env_def)

text \<open>
  C2: for every parseable query the handler returns response bytes and never raises, a
  configured target that does not resolve to a valid address included. The code where the
  target \<open>nas.invalid\<close> of \<open>home.test\<close> cannot be resolved: the resolver passes the name
  through, \<open>create_dns_record\<close> raises on it, and the exception leaves the handler. The
  same failure below the forwarding branch is turned into a server-failure response.
\<close>

theorem unresolvable_target_raises:
  "handle_dns_query offline_env 0 0
     [(''home.test'', \<lparr>ip = ''nas.invalid'', subdomains = []\<rparr>)]
     \<lparr>q_id = 7, q_question = [\<lparr>qn_name = ''home.test.'', qn_rdtype = 1\<rparr>]\<rparr> [] =
   (Inl ValueError, [])"
  by (simp add: handle_dns_query_def strip_chars_def answer_match_def endswith_def
      create_dns_entry_def served_ip_def check_if_resolution_valid_def fetchone_def
      get_ip_or_domain_def is_valid_ip_def offline_env_def dotted_quad_name
      create_dns_record_def)

lemma forwarding_failure_is_servfail:
  assumes "q_question query = q0 # qs"
    and "match_config (strip_chars ''.'' (qn_name q0)) cfg = NoMatch"
    and "resolve_dns_entry e now now2 (strip_chars ''.'' (qn_name q0)) query db = (Inl ex, db1)"
  shows "handle_dns_query e now now2 cfg query db =
           (Inr (Wire ((make_response query)\<lparr>resp_rcode := SERVFAIL\<rparr>), []), db1)"
  using assms by (simp add: handle_dns_query_def set_rcode_def to_wire_def Let_def)

end
